theory Spec2Isabelle
  imports Main "HOL-Library.Word"
begin

section \<open>The terminal status reporter: \<open>TerminalUI::Callback\<close>\<close>

subsection \<open>Types declared in headers that the function uses\<close>

text \<open>
  \<open>TerminalUI.cpp\<close> includes \<open>PrinterStatus.h\<close>, \<open>MessageStrings.h\<close>, \<open>Event.h\<close>
  (through \<open>TerminalUI.h\<close>) and \<open>Logger.h\<close>. Enumerations are modelled by the values the
  function distinguishes. An \<open>EventType\<close> is kept as its numeric value, because the
  function passes it to the logger as a number.
\<close>

type_synonym EventType = nat

type_synonym PrinterState = nat

datatype StateChange = NoChange | Entering | Leaving

datatype UISubState = NoUISubState | OtherUISubState nat

datatype ErrorCode = UnexpectedEvent | OtherError nat

datatype SyslogPriority =
  LOG_EMERG | LOG_ALERT | LOG_CRIT | LOG_ERR | LOG_WARNING | LOG_NOTICE | LOG_INFO | LOG_DEBUG

text \<open>
  The fields of \<open>PrinterStatus\<close> that \<open>Callback\<close> reads (the source names them with a
  leading underscore). The three progress fields are passed to \<open>%d\<close> conversions, so they
  are C \<open>int\<close>s: 32-bit words read as two's complement. The record is extensible: any
  further field of the struct lives in its \<open>more\<close> part and is never read.
\<close>

record PrinterStatus =
  ps_state :: PrinterState
  ps_UISubState :: UISubState
  ps_change :: StateChange
  ps_currentLayer :: "32 word"
  ps_numLayers :: "32 word"
  ps_estimatedSecondsRemaining :: "32 word"

text \<open>
  What the macros and enumerators of the absent headers expand to is a parameter of the
  model: the numeric value of the enumerator \<open>PrinterStatusUpdate\<close>, the name tables behind
  \<open>STATE_NAME\<close> and \<open>SUBSTATE_NAME\<close>, the format string \<open>PRINTER_STATUS_FORMAT\<close> and the
  message table behind \<open>ERR_MSG\<close>.
\<close>

record Declarations =
  PrinterStatusUpdate :: EventType
  STATE_NAME :: "PrinterState \<Rightarrow> string"
  SUBSTATE_NAME :: "UISubState \<Rightarrow> string"
  PRINTER_STATUS_FORMAT :: string
  ERR_MSG :: "ErrorCode \<Rightarrow> string"

subsection \<open>The effects: standard output, the logger, \<open>errno\<close>\<close>

text \<open>
  One call of \<open>LOGGER.LogError(priority, errnum, msg, value)\<close>. The logger itself is a
  collaborator outside the sources; the model records the calls made to it.
\<close>

record LogCall =
  log_priority :: SyslogPriority
  log_errnum :: int
  log_msg :: string
  log_value :: int

record io =
  cout :: string
  logger :: "LogCall list"
  errno :: int

definition put :: "string \<Rightarrow> 'a io_scheme \<Rightarrow> 'a io_scheme" where
  "put s w = w\<lparr>cout := cout w @ s\<rparr>"

definition endl :: "'a io_scheme \<Rightarrow> 'a io_scheme" where
  "endl w = put ''\<newline>'' w"

definition LogError ::
  "SyslogPriority \<Rightarrow> int \<Rightarrow> string \<Rightarrow> int \<Rightarrow> 'a io_scheme \<Rightarrow> 'a io_scheme" where
  "LogError priority errnum m v w =
     w\<lparr>logger := logger w @
        [\<lparr>log_priority = priority, log_errnum = errnum, log_msg = m, log_value = v\<rparr>]\<rparr>"

subsection \<open>\<open>sprintf\<close> into a fixed buffer\<close>

definition digit :: "nat \<Rightarrow> char" where
  "digit n = ''0123456789'' ! n"

fun digits :: "nat \<Rightarrow> string" where
  "digits n = (if n < 10 then [digit n] else digits (n div 10) @ [digit (n mod 10)])"

declare digits.simps [simp del]

text \<open>The text a \<open>%d\<close> conversion produces for an \<open>int\<close>.\<close>

definition dec :: "int \<Rightarrow> string" where
  "dec i = (if i < 0 then CHR ''-'' # digits (nat (- i)) else digits (nat i))"

text \<open>
  Expanding a format string over \<open>int\<close> arguments. The conversions modelled are \<open>%d\<close> and
  \<open>%%\<close>; a \<open>%d\<close> with no argument left, a lone \<open>%\<close> at the end, and any other conversion
  have no defined result in this model (\<open>None\<close>). Arguments left over are ignored, as in C.
\<close>

fun format :: "string \<Rightarrow> int list \<Rightarrow> string option" where
  "format [] args = Some []"
| "format (c # fs) args =
     (if c \<noteq> CHR ''%'' then map_option ((#) c) (format fs args)
      else case fs of
        [] \<Rightarrow> None
      | d # fs' \<Rightarrow>
          if d = CHR ''%'' then map_option ((#) CHR ''%'') (format fs' args)
          else if d = CHR ''d'' then
            (case args of
               [] \<Rightarrow> None
             | a # args' \<Rightarrow> map_option ((@) (dec a)) (format fs' args'))
          else None)"

text \<open>
  \<open>sprintf\<close> into a buffer of \<open>n\<close> chars: the text and its terminating NUL must fit,
  otherwise the write runs past the buffer and the behaviour is undefined (\<open>None\<close>).
\<close>

definition sprintf :: "nat \<Rightarrow> string \<Rightarrow> int list \<Rightarrow> string option" where
  "sprintf n fmt args =
     (case format fmt args of
        None \<Rightarrow> None
      | Some s \<Rightarrow> if length s < n then Some s else None)"

subsection \<open>The callback\<close>

text \<open>
  \<open>void TerminalUI::Callback(EventType eventType, void* data)\<close>. The pointer \<open>data\<close> is
  only dereferenced in the \<open>PrinterStatusUpdate\<close> case, after a cast to \<open>PrinterStatus*\<close>:
  \<open>Some pPS\<close> is a pointer to a \<open>PrinterStatus\<close>, \<open>None\<close> any other pointer (null
  included), whose dereference is undefined. The result \<open>None\<close> is undefined behaviour,
  \<open>Some w\<close> a normal return in the state \<open>w\<close>. \<open>std::endl\<close> also flushes the stream,
  which the model does not distinguish from the line break it writes.
\<close>

definition Callback ::
  "Declarations \<Rightarrow> EventType \<Rightarrow> 'p PrinterStatus_scheme option \<Rightarrow> 'a io_scheme
     \<Rightarrow> 'a io_scheme option" where
  "Callback H eventType data w =
     (if eventType = PrinterStatusUpdate H then
        (case data of
           None \<Rightarrow> None
         | Some pPS \<Rightarrow>
             let change = (if ps_change pPS = Entering then ''entering ''
                           else if ps_change pPS = Leaving then ''leaving ''
                           else '''');
                 substate = (if ps_UISubState pPS \<noteq> NoUISubState
                             then SUBSTATE_NAME H (ps_UISubState pPS)
                             else '''');
                 w1 = put substate (put '' '' (put (STATE_NAME H (ps_state pPS)) (put change w)))
             in if ps_currentLayer pPS \<noteq> 0 then
                  (case sprintf 256 (PRINTER_STATUS_FORMAT H)
                          [sint (ps_currentLayer pPS),
                           sint (ps_numLayers pPS),
                           sint (ps_estimatedSecondsRemaining pPS)] of
                     None \<Rightarrow> None
                   | Some statusMsg \<Rightarrow> Some (endl (put statusMsg w1)))
                else Some (endl w1))
      else Some (LogError LOG_WARNING (errno w) (ERR_MSG H UnexpectedEvent) (int eventType) w))"

text \<open>The text a call added to standard output, given the states before and after.\<close>

definition written :: "'a io_scheme \<Rightarrow> 'a io_scheme \<Rightarrow> string" where
  "written w w' = drop (length (cout w)) (cout w')"

text \<open>
  Modelled from the spec: the macro \<open>PRINTER_STATUS_FORMAT\<close> of \<open>MessageStrings.h\<close>, which
  is not among the sources. The specification gives the progress fragment as current
  layer, a slash, the number of layers, a comma and a space, the estimated seconds
  remaining, and \<open>s remaining\<close>.
\<close>

definition spec_PRINTER_STATUS_FORMAT :: string where
  "spec_PRINTER_STATUS_FORMAT = ''%d/%d, %ds remaining''"

section \<open>The event handler: \<open>EventHandler\<close> and its collaborators\<close>

text \<open>
  The sources hold the declaration of \<open>EventHandler\<close> only (\<open>SetFileDescriptor\<close>,
  \<open>Subscribe\<close>, \<open>Begin\<close>, the table \<open>_pEvents\<close>, \<open>UnexportPins\<close>); the definitions of
  its members, of \<open>Event\<close> and of the hardware access are not among them. This section
  models them from the specification.
\<close>

subsection \<open>HardwareResource\<close>

datatype Failure = HardwareUnavailable | UnexpectedSignal | StartupFailed

datatype WaitableHandle = HandleFor EventType

datatype AcquireStep = ExportPin | SetEdge | OpenDescriptor

datatype HwOp = DoExport EventType | DoOpen EventType | DoClose EventType | DoUnexport EventType

text \<open>
  Modelled from the spec: the state of the hardware boundary, which no source file
  declares. \<open>hw_fault\<close> says at which step the setup of an event type breaks, if at any;
  \<open>hw_exported\<close> and \<open>hw_opened\<close> are the pins exported and the descriptors open;
  \<open>hw_ops\<close> is the trace of the operations performed on the operating system.
\<close>

record Hardware =
  hw_fault :: "EventType \<Rightarrow> AcquireStep option"
  hw_exported :: "EventType set"
  hw_opened :: "EventType set"
  hw_ops :: "HwOp list"

text \<open>
  Modelled from the spec: the steps of \<open>HardwareResource.Acquire\<close> and their inverses
  (exporting a pin, opening the resulting descriptor; closing, unexporting), absent from
  the sources. A step whose effect is already in place is not performed again.
\<close>

definition export_pin :: "EventType \<Rightarrow> Hardware \<Rightarrow> Hardware" where
  "export_pin et hw =
     (if et \<in> hw_exported hw then hw
      else hw\<lparr>hw_exported := insert et (hw_exported hw), hw_ops := hw_ops hw @ [DoExport et]\<rparr>)"

definition open_descriptor :: "EventType \<Rightarrow> Hardware \<Rightarrow> Hardware" where
  "open_descriptor et hw =
     (if et \<in> hw_opened hw then hw
      else hw\<lparr>hw_opened := insert et (hw_opened hw), hw_ops := hw_ops hw @ [DoOpen et]\<rparr>)"

definition close_descriptor :: "EventType \<Rightarrow> Hardware \<Rightarrow> Hardware" where
  "close_descriptor et hw =
     (if et \<in> hw_opened hw
      then hw\<lparr>hw_opened := hw_opened hw - {et}, hw_ops := hw_ops hw @ [DoClose et]\<rparr>
      else hw)"

definition unexport_pin :: "EventType \<Rightarrow> Hardware \<Rightarrow> Hardware" where
  "unexport_pin et hw =
     (if et \<in> hw_exported hw
      then hw\<lparr>hw_exported := hw_exported hw - {et}, hw_ops := hw_ops hw @ [DoUnexport et]\<rparr>
      else hw)"

text \<open>
  Modelled from the spec: \<open>HardwareResource.Acquire\<close>, absent from the sources. It
  exports the pin, sets the edge-trigger mode and opens the descriptor, and fails with
  \<open>HardwareUnavailable\<close> at the step the hardware breaks at, leaving the earlier steps
  in place.
\<close>

definition Acquire :: "EventType \<Rightarrow> Hardware \<Rightarrow> (Failure + WaitableHandle) \<times> Hardware" where
  "Acquire et hw =
     (if hw_fault hw et = Some ExportPin then (Inl HardwareUnavailable, hw)
      else let hw1 = export_pin et hw in
        if hw_fault hw et = Some SetEdge then (Inl HardwareUnavailable, hw1)
        else if hw_fault hw et = Some OpenDescriptor then (Inl HardwareUnavailable, hw1)
        else (Inr (HandleFor et), open_descriptor et hw1))"

text \<open>
  Modelled from the spec: \<open>HardwareResource.Release\<close>, absent from the sources. It
  undoes every side effect \<open>Acquire\<close> performed, also those of an \<open>Acquire\<close> that
  failed partway.
\<close>

definition Release :: "EventType \<Rightarrow> Hardware \<Rightarrow> Hardware" where
  "Release et hw = unexport_pin et (close_descriptor et hw)"

subsection \<open>Event\<close>

datatype Payload = PrinterStatusPayload PrinterStatus | OtherPayload nat

datatype Signal = Decodable Payload | Unreadable

text \<open>
  Modelled from the spec: the class \<open>Event\<close> (\<open>Event.h\<close> is not among the sources):
  its event type, whether startup requires it, and its handle (\<open>None\<close> is the
  unconfigured sentinel).
\<close>

record Event =
  ev_type :: EventType
  ev_required :: bool
  ev_handle :: "WaitableHandle option"

text \<open>
  Modelled from the spec: \<open>Event.Arm\<close>, absent from the sources. It calls \<open>Acquire\<close>
  and records the handle. The specification asks both that a partial setup leaks nothing
  and that \<open>Disarm\<close> after an \<open>Arm\<close> that never succeeded does nothing, so a failed
  \<open>Arm\<close> releases what its \<open>Acquire\<close> left in place before it reports the failure.
\<close>

definition Arm :: "Event \<Rightarrow> Hardware \<Rightarrow> (Failure + unit) \<times> Event \<times> Hardware" where
  "Arm ev hw =
     (case Acquire (ev_type ev) hw of
        (Inl e, hw') \<Rightarrow> (Inl e, ev\<lparr>ev_handle := None\<rparr>, Release (ev_type ev) hw')
      | (Inr fd, hw') \<Rightarrow> (Inr (), ev\<lparr>ev_handle := Some fd\<rparr>, hw'))"

text \<open>
  Modelled from the spec: \<open>Event.Disarm\<close>, absent from the sources. It calls \<open>Release\<close>
  and invalidates the handle, and does nothing when \<open>Arm\<close> never succeeded.
\<close>

definition Disarm :: "Event \<Rightarrow> Hardware \<Rightarrow> Event \<times> Hardware" where
  "Disarm ev hw =
     (case ev_handle ev of
        None \<Rightarrow> (ev, hw)
      | Some fd \<Rightarrow> (ev\<lparr>ev_handle := None\<rparr>, Release (ev_type ev) hw))"

text \<open>
  Modelled from the spec: \<open>Event.Interpret\<close>, absent from the sources. It decodes the
  signal read from the ready handle into one \<open>Payload\<close>, or fails with \<open>UnexpectedSignal\<close>.
\<close>

definition Interpret :: "Event \<Rightarrow> Signal \<Rightarrow> Failure + Payload" where
  "Interpret ev s = (case s of Decodable p \<Rightarrow> Inr p | Unreadable \<Rightarrow> Inl UnexpectedSignal)"

subsection \<open>SubscriptionRegistry and EventHandler\<close>

type_synonym CallbackConsumer = nat

datatype Phase = Unconfigured | Configured | Running | Stopped

text \<open>
  Modelled from the spec: the state of \<open>EventHandler\<close>, of which the sources declare the
  table \<open>_pEvents\<close> only. \<open>events\<close> is that table in configuration order;
  \<open>subscriptions\<close> is the registry in subscription order; \<open>delivered\<close> records every
  call of a subscriber's \<open>Callback\<close>, \<open>interpreted\<close> every call of \<open>Interpret\<close>,
  \<open>warnings\<close> every warning logged.
\<close>

record EventHandler =
  phase :: Phase
  events :: "Event list"
  subscriptions :: "(EventType \<times> CallbackConsumer) list"
  hardware :: Hardware
  delivered :: "(CallbackConsumer \<times> EventType \<times> Payload) list"
  interpreted :: "EventType list"
  warnings :: "EventType list"

text \<open>
  Modelled from the spec: the constructor \<open>EventHandler::EventHandler\<close>, absent from
  the sources: nothing configured, nothing subscribed.
\<close>

definition new_EventHandler :: "Hardware \<Rightarrow> EventHandler" where
  "new_EventHandler hw =
     \<lparr>phase = Unconfigured, events = [], subscriptions = [], hardware = hw,
      delivered = [], interpreted = [], warnings = []\<rparr>"

text \<open>
  Modelled from the spec: the configuration step (\<open>SetResource\<close> in the specification,
  \<open>EventHandler::SetFileDescriptor\<close> in the declaration), absent from the sources.
  It may be repeated per type and keeps one \<open>Event\<close> per \<open>EventType\<close>.
\<close>

definition SetResource :: "EventType \<Rightarrow> bool \<Rightarrow> EventHandler \<Rightarrow> EventHandler" where
  "SetResource et required h =
     h\<lparr>phase := (if phase h = Unconfigured then Configured else phase h),
       events :=
         (if et \<in> set (map ev_type (events h))
          then map (\<lambda>ev. if ev_type ev = et then ev\<lparr>ev_required := required\<rparr> else ev) (events h)
          else events h @ [\<lparr>ev_type = et, ev_required = required, ev_handle = None\<rparr>])\<rparr>"

text \<open>
  Modelled from the spec: \<open>EventHandler::Subscribe\<close>, absent from the sources. It appends
  to the subscriber list; a duplicate registration is kept.
\<close>

definition Subscribe :: "EventType \<Rightarrow> CallbackConsumer \<Rightarrow> EventHandler \<Rightarrow> EventHandler" where
  "Subscribe et c h = h\<lparr>subscriptions := subscriptions h @ [(et, c)]\<rparr>"

text \<open>
  Modelled from the spec: \<open>SubscribersFor\<close>, absent from the sources: the subscribers of
  an event type, in subscription order, empty if none.
\<close>

definition SubscribersFor :: "EventType \<Rightarrow> EventHandler \<Rightarrow> CallbackConsumer list" where
  "SubscribersFor et h = map snd (filter (\<lambda>s. fst s = et) (subscriptions h))"

text \<open>
  Modelled from the spec: the arming pass of \<open>EventHandler::Begin\<close>, absent from the
  sources. \<open>Arm\<close> is called on every configured \<open>Event\<close> in order. An optional
  \<open>Event\<close> that fails to arm is logged and left unconfigured. When a required one fails
  the pass stops, and on the way out every \<open>Event\<close> armed before it is disarmed, the
  last armed first. The result is whether the pass succeeded, the events, the hardware
  and the warnings logged.
\<close>

fun ArmAll :: "Event list \<Rightarrow> Hardware \<Rightarrow> bool \<times> Event list \<times> Hardware \<times> EventType list" where
  "ArmAll [] hw = (True, [], hw, [])"
| "ArmAll (ev # evs) hw =
     (case Arm ev hw of
        (Inl e, ev', hw') \<Rightarrow>
          if ev_required ev then (False, ev' # evs, hw', [])
          else (case ArmAll evs hw' of
                  (ok, evs', hw'', ws) \<Rightarrow> (ok, ev' # evs', hw'', ev_type ev # ws))
      | (Inr u, ev', hw') \<Rightarrow>
          (case ArmAll evs hw' of
             (True, evs', hw'', ws) \<Rightarrow> (True, ev' # evs', hw'', ws)
           | (False, evs', hw'', ws) \<Rightarrow>
               (case Disarm ev' hw'' of (ev'', hw''') \<Rightarrow> (False, ev'' # evs', hw''', ws))))"

text \<open>
  Modelled from the spec: the teardown of \<open>EventHandler\<close> (\<open>UnexportPins\<close> in the
  declaration), absent from the sources: \<open>Disarm\<close> on every \<open>Event\<close>, in reverse
  configuration order.
\<close>

fun DisarmAll :: "Event list \<Rightarrow> Hardware \<Rightarrow> Event list \<times> Hardware" where
  "DisarmAll [] hw = ([], hw)"
| "DisarmAll (ev # evs) hw =
     (case DisarmAll evs hw of
        (evs', hw') \<Rightarrow> (case Disarm ev hw' of (ev', hw'') \<Rightarrow> (ev' # evs', hw'')))"

definition Teardown :: "EventHandler \<Rightarrow> EventHandler" where
  "Teardown h =
     (case DisarmAll (events h) (hardware h) of
        (evs, hw) \<Rightarrow> h\<lparr>phase := Stopped, events := evs, hardware := hw\<rparr>)"

text \<open>
  Modelled from the spec: the dispatch of one \<open>Payload\<close>, absent from the sources: the
  \<open>Callback\<close> of every subscriber of the event type is called, synchronously, in
  registration order.
\<close>

definition Invoke ::
  "EventType \<Rightarrow> Payload \<Rightarrow> EventHandler \<Rightarrow> CallbackConsumer \<Rightarrow> EventHandler" where
  "Invoke et p h c = h\<lparr>delivered := delivered h @ [(c, et, p)]\<rparr>"

definition Dispatch :: "EventType \<Rightarrow> Payload \<Rightarrow> EventHandler \<Rightarrow> EventHandler" where
  "Dispatch et p h = foldl (Invoke et p) h (SubscribersFor et h)"

text \<open>
  Modelled from the spec: what the loop does for one \<open>Event\<close> on a wakeup, absent from
  the sources. \<open>ready\<close> maps each handle the wait primitive reports ready to the signal
  pending on it. An \<open>Event\<close> whose handle is ready is interpreted; on success the
  \<open>Payload\<close> is dispatched, on failure a warning tagged with the event type is logged.
  (A resource that is permanently gone, which the specification answers by disarming the
  \<open>Event\<close>, is not among the signals modelled.)
\<close>

definition ServiceEvent ::
  "(WaitableHandle \<Rightarrow> Signal option) \<Rightarrow> EventHandler \<Rightarrow> Event \<Rightarrow> EventHandler" where
  "ServiceEvent ready h ev =
     (case ev_handle ev of
        None \<Rightarrow> h
      | Some fd \<Rightarrow>
          (case ready fd of
             None \<Rightarrow> h
           | Some s \<Rightarrow>
               let h1 = h\<lparr>interpreted := interpreted h @ [ev_type ev]\<rparr> in
               (case Interpret ev s of
                  Inl e \<Rightarrow> h1\<lparr>warnings := warnings h1 @ [ev_type ev]\<rparr>
                | Inr p \<Rightarrow> Dispatch (ev_type ev) p h1)))"

text \<open>
  Modelled from the spec: one wakeup of the loop, a transition within \<open>Running\<close>, absent
  from the sources: every \<open>Event\<close> is scanned once, in configuration order.
\<close>

definition OnWakeup :: "(WaitableHandle \<Rightarrow> Signal option) \<Rightarrow> EventHandler \<Rightarrow> EventHandler" where
  "OnWakeup ready h =
     (if phase h = Running then foldl (ServiceEvent ready) h (events h) else h)"

datatype Wakeup =
  Readiness "WaitableHandle \<Rightarrow> Signal option" | ShutdownRequest | FatalHardwareError

datatype LoopExit = StillWaiting | StoppedOnRequest | StoppedOnFailure

text \<open>
  Modelled from the spec: the blocking loop of \<open>EventHandler::Begin\<close>, absent from the
  sources, run over the wakeups the wait primitive will return. A shutdown request or a
  fatal hardware error tears the handler down and ends the loop; when the wakeups are
  used up the loop is blocked in the wait primitive.
\<close>

fun Loop :: "Wakeup list \<Rightarrow> EventHandler \<Rightarrow> LoopExit \<times> EventHandler" where
  "Loop [] h = (StillWaiting, h)"
| "Loop (Readiness ready # ws) h = Loop ws (OnWakeup ready h)"
| "Loop (ShutdownRequest # ws) h = (StoppedOnRequest, Teardown h)"
| "Loop (FatalHardwareError # ws) h = (StoppedOnFailure, Teardown h)"

text \<open>
  Modelled from the spec: \<open>EventHandler::Begin\<close>, absent from the sources. When a
  required \<open>Event\<close> fails to arm it fails with \<open>StartupFailed\<close> and starts no loop;
  otherwise the handler is \<open>Running\<close> and enters the loop.
\<close>

definition Begin :: "Wakeup list \<Rightarrow> EventHandler \<Rightarrow> (Failure + LoopExit) \<times> EventHandler" where
  "Begin ws h =
     (case ArmAll (events h) (hardware h) of
        (False, evs, hw, logged) \<Rightarrow>
          (Inl StartupFailed,
           h\<lparr>events := evs, hardware := hw, warnings := warnings h @ logged\<rparr>)
      | (True, evs, hw, logged) \<Rightarrow>
          (case Loop ws (h\<lparr>phase := Running, events := evs, hardware := hw,
                           warnings := warnings h @ logged\<rparr>) of
             (exit, h') \<Rightarrow> (Inr exit, h')))"

text \<open>
  The release balance of an event type: every export in the trace is matched by an
  unexport, except the one of a pin still exported, and likewise for descriptors.
\<close>

definition balanced :: "Hardware \<Rightarrow> EventType \<Rightarrow> bool" where
  "balanced hw et \<longleftrightarrow>
     count_list (hw_ops hw) (DoExport et) =
       count_list (hw_ops hw) (DoUnexport et) + (if et \<in> hw_exported hw then 1 else 0)
     \<and> count_list (hw_ops hw) (DoOpen et) =
       count_list (hw_ops hw) (DoClose et) + (if et \<in> hw_opened hw then 1 else 0)"


text \<open>
  The handler as configuration leaves it: no \<open>Event\<close> armed, none of their resources
  held, one \<open>Event\<close> per event type.
\<close>

definition unarmed :: "EventHandler \<Rightarrow> bool" where
  "unarmed h \<longleftrightarrow>
     distinct (map ev_type (events h))
     \<and> list_all (\<lambda>ev. ev_handle ev = None
          \<and> ev_type ev \<notin> hw_exported (hardware h)
          \<and> ev_type ev \<notin> hw_opened (hardware h)) (events h)"

text \<open>Concrete values used to run the model.\<close>

definition ex_state_name :: "PrinterState \<Rightarrow> string" where
  "ex_state_name s = (if s = 0 then ''Home'' else if s = 1 then ''Printing'' else ''Idle'')"

definition ex_substate_name :: "UISubState \<Rightarrow> string" where
  "ex_substate_name u = (case u of NoUISubState \<Rightarrow> '''' | OtherUISubState n \<Rightarrow> ''Downloading'')"

definition ex_err_msg :: "ErrorCode \<Rightarrow> string" where
  "ex_err_msg e = (case e of UnexpectedEvent \<Rightarrow> ''Unexpected event type: %d'' | OtherError n \<Rightarrow> ''Error'')"

definition ex_decls :: Declarations where
  "ex_decls = \<lparr>PrinterStatusUpdate = 7, STATE_NAME = ex_state_name,
     SUBSTATE_NAME = ex_substate_name, PRINTER_STATUS_FORMAT = spec_PRINTER_STATUS_FORMAT,
     ERR_MSG = ex_err_msg\<rparr>"

definition ex_io :: io where
  "ex_io = \<lparr>cout = ''ready\<newline>'', logger = [], errno = 2\<rparr>"

definition ex_status :: PrinterStatus where
  "ex_status = \<lparr>ps_state = 1, ps_UISubState = NoUISubState, ps_change = Entering,
     ps_currentLayer = 1, ps_numLayers = 5, ps_estimatedSecondsRemaining = 120\<rparr>"

text \<open>
  Hardware on which the setup of event type 2 breaks when its descriptor is opened, and
  handlers configured on it: a door sensor (1) and the printer status (7) with one
  subscriber each; the same with the subscriber of 7 registered twice; the same with a
  required event of type 2 configured last; the first after \<open>Begin\<close>, blocked in its
  first wait; and a readiness notification on the handle of the printer status.
\<close>

definition ex_hw :: Hardware where
  "ex_hw = \<lparr>hw_fault = (\<lambda>et. if et = 2 then Some OpenDescriptor else None),
     hw_exported = {}, hw_opened = {}, hw_ops = []\<rparr>"

definition ex_handler :: EventHandler where
  "ex_handler =
     Subscribe 7 100 (Subscribe 1 200
       (SetResource 7 True (SetResource 1 True (new_EventHandler ex_hw))))"


definition ex_failing_handler :: EventHandler where
  "ex_failing_handler = SetResource 2 True ex_handler"


definition ex_ready :: "WaitableHandle \<Rightarrow> Signal option" where
  "ex_ready fd =
     (if fd = HandleFor 7 then Some (Decodable (PrinterStatusPayload ex_status)) else None)"

section \<open>Properties of the callback\<close>

lemmas ex_defs = ex_decls_def ex_io_def ex_status_def ex_state_name_def ex_substate_name_def
  ex_err_msg_def spec_PRINTER_STATUS_FORMAT_def

lemmas run_defs = Callback_def put_def endl_def LogError_def sprintf_def dec_def digit_def
  digits.simps written_def

lemma Callback_status_cout:
  "Callback H (PrinterStatusUpdate H) (Some pPS) w =
     map_option
       (\<lambda>progress. w\<lparr>cout := cout w
          @ (if ps_change pPS = Entering then ''entering ''
             else if ps_change pPS = Leaving then ''leaving '' else '''')
          @ STATE_NAME H (ps_state pPS) @ '' ''
          @ (if ps_UISubState pPS \<noteq> NoUISubState then SUBSTATE_NAME H (ps_UISubState pPS)
             else '''')
          @ progress @ ''\<newline>''\<rparr>)
       (if ps_currentLayer pPS \<noteq> 0
        then sprintf 256 (PRINTER_STATUS_FORMAT H)
               [sint (ps_currentLayer pPS), sint (ps_numLayers pPS),
                sint (ps_estimatedSecondsRemaining pPS)]
        else Some '''')"
  by (simp add: Callback_def put_def endl_def Let_def split: option.splits)

lemma length_digits: "0 < k \<Longrightarrow> n < 10 ^ k \<Longrightarrow> length (digits n) \<le> k"
proof (induction k arbitrary: n)
  case 0
  then show ?case by simp
next
  case (Suc k)
  show ?case
  proof (cases "n < 10")
    case True
    then show ?thesis by (simp add: digits.simps)
  next
    case False
    with Suc.prems have k: "0 < k" by (cases k) auto
    from Suc.prems have "n div 10 < 10 ^ k" by (simp add: less_mult_imp_div_less mult.commute)
    from Suc.IH [OF k this] False show ?thesis
      by (subst digits.simps) simp
  qed
qed

lemma length_dec_sint: "length (dec (sint (x :: 32 word))) \<le> 11"
proof -
  have lo: "- (2 ^ 31) \<le> sint x" and hi: "sint x < 2 ^ 31"
    using sint_ge [of x] sint_lt [of x] by simp_all
  show ?thesis
  proof (cases "sint x < 0")
    case True
    with lo have "nat (- sint x) < 10 ^ 10" by simp
    then have "length (digits (nat (- sint x))) \<le> 10" by (intro length_digits) simp_all
    with True show ?thesis by (simp add: dec_def)
  next
    case False
    with hi have "nat (sint x) < 10 ^ 10" by simp
    then have "length (digits (nat (sint x))) \<le> 10" by (intro length_digits) simp_all
    with False show ?thesis by (simp add: dec_def)
  qed
qed

lemma format_spec:
  "format spec_PRINTER_STATUS_FORMAT [a, b, c] =
     Some (dec a @ ''/'' @ dec b @ '', '' @ dec c @ ''s remaining'')"
  by (simp add: spec_PRINTER_STATUS_FORMAT_def)

lemma sprintf_spec:
  "sprintf 256 spec_PRINTER_STATUS_FORMAT [sint (a :: 32 word), sint (b :: 32 word), sint (c :: 32 word)] =
     Some (dec (sint a) @ ''/'' @ dec (sint b) @ '', '' @ dec (sint c) @ ''s remaining'')"
  using length_dec_sint [of a] length_dec_sint [of b] length_dec_sint [of c]
  by (simp add: sprintf_def format_spec)

lemma Callback_appends:
  "Callback H eventType data w = Some w' \<Longrightarrow> cout w' = cout w @ written w w'"
  by (auto simp: Callback_def put_def endl_def LogError_def written_def Let_def
      split: if_splits option.splits)

text \<open>
  With the format of the specification the progress text always fits the buffer of 256
  chars, whatever the three \<open>int\<close>s are, so the callback returns normally on every
  printer status.
\<close>

lemma Callback_spec_format_returns:
  assumes "PRINTER_STATUS_FORMAT H = spec_PRINTER_STATUS_FORMAT"
  shows "\<exists>w'. Callback H (PrinterStatusUpdate H) (Some pPS) w = Some w'"
  using assms by (simp add: Callback_status_cout sprintf_spec)

subsection \<open>The rendered line\<close>

text \<open>
  Claim C1, as stated: the text rendered for a printer status is the transition word, the
  state name, the sub-state name when there is one and nothing otherwise, the progress
  fragment when the current layer is not 0, and a line break. It fails on the code: for
  a status entering state \<open>Printing\<close> with no sub-state and current layer 0, the text
  written is not \<open>entering Printing\<close> and a line break, because the code writes a
  space after the state name.
\<close>

theorem Callback_status_line_counterexample:
  "map_option cout
     (Callback ex_decls (PrinterStatusUpdate ex_decls)
        (Some (ex_status\<lparr>ps_currentLayer := 0\<rparr>)) ex_io)
   \<noteq> Some (cout ex_io
        @ ''entering '' @ STATE_NAME ex_decls (ps_state ex_status) @ '''' @ '''' @ ''\<newline>'')"
  by (simp add: ex_defs run_defs)

text \<open>
  Claim C1, amended: for every printer status, standard output after the call is what
  it was before, followed by the transition word (\<open>entering \<close>, \<open>leaving \<close> or nothing), the state name, one space,
  the sub-state name when the sub-state is not \<open>NoUISubState\<close> and nothing otherwise,
  then, only when the current layer is not 0, the progress fragment that \<open>sprintf\<close> makes
  of \<open>PRINTER_STATUS_FORMAT\<close> and the three progress fields, then a line break. (When
  the fragment does not fit the buffer nothing is promised.)
\<close>

theorem Callback_status_line:
  "map_option cout (Callback H (PrinterStatusUpdate H) (Some pPS) w) =
     map_option
       (\<lambda>progress. cout w @
          (if ps_change pPS = Entering then ''entering ''
           else if ps_change pPS = Leaving then ''leaving '' else '''')
          @ STATE_NAME H (ps_state pPS) @ '' ''
          @ (if ps_UISubState pPS = NoUISubState then ''''
             else SUBSTATE_NAME H (ps_UISubState pPS))
          @ progress @ ''\<newline>'')
       (if ps_currentLayer pPS = 0 then Some ''''
        else sprintf 256 (PRINTER_STATUS_FORMAT H)
               [sint (ps_currentLayer pPS), sint (ps_numLayers pPS),
                sint (ps_estimatedSecondsRemaining pPS)])"
  by (simp add: Callback_status_cout option.map_comp comp_def)

theorem Callback_status_line_witness:
  "map_option cout
     (Callback ex_decls (PrinterStatusUpdate ex_decls)
        (Some (ex_status\<lparr>ps_UISubState := OtherUISubState 4\<rparr>)) ex_io)
   = Some ''ready\<newline>entering Printing Downloading1/5, 120s remaining\<newline>''"
  using Callback_status_line [of ex_decls "ex_status\<lparr>ps_UISubState := OtherUISubState 4\<rparr>" ex_io]
  by (simp add: ex_defs sprintf_def dec_def digits.simps digit_def)

text \<open>
  Claim C2: a printer status whose current layer is 0 is rendered without a progress
  fragment: the line ends after the sub-state name. A printer status with current layer
  3, 10 layers and 42 seconds remaining is rendered with the fragment that \<open>sprintf\<close>
  makes of the format and exactly the values 3, 10 and 42; with the format of the
  specification that fragment is \<open>3/10, 42s remaining\<close>.
\<close>

theorem Callback_progress_fragment:
  "(ps_currentLayer pPS = 0 \<longrightarrow>
      map_option (written w) (Callback H (PrinterStatusUpdate H) (Some pPS) w) =
        Some ((if ps_change pPS = Entering then ''entering ''
               else if ps_change pPS = Leaving then ''leaving '' else '''')
              @ STATE_NAME H (ps_state pPS) @ '' ''
              @ (if ps_UISubState pPS = NoUISubState then ''''
                 else SUBSTATE_NAME H (ps_UISubState pPS))
              @ ''\<newline>''))
   \<and> (ps_currentLayer pPS = 3 \<and> ps_numLayers pPS = 10
        \<and> ps_estimatedSecondsRemaining pPS = 42 \<longrightarrow>
      map_option (written w) (Callback H (PrinterStatusUpdate H) (Some pPS) w) =
        map_option
          (\<lambda>progress.
             (if ps_change pPS = Entering then ''entering ''
              else if ps_change pPS = Leaving then ''leaving '' else '''')
             @ STATE_NAME H (ps_state pPS) @ '' ''
             @ (if ps_UISubState pPS = NoUISubState then ''''
                else SUBSTATE_NAME H (ps_UISubState pPS))
             @ progress @ ''\<newline>'')
          (sprintf 256 (PRINTER_STATUS_FORMAT H) [3, 10, 42])
      \<and> (PRINTER_STATUS_FORMAT H = spec_PRINTER_STATUS_FORMAT \<longrightarrow>
           sprintf 256 (PRINTER_STATUS_FORMAT H) [3, 10, 42] = Some ''3/10, 42s remaining''))"
  by (simp add: Callback_status_cout written_def option.map_comp comp_def
      spec_PRINTER_STATUS_FORMAT_def sprintf_def dec_def digits.simps digit_def)

theorem Callback_progress_fragment_witness:
  "map_option (written ex_io)
     (Callback ex_decls (PrinterStatusUpdate ex_decls)
        (Some (ex_status\<lparr>ps_change := Leaving, ps_currentLayer := 0\<rparr>)) ex_io)
     = Some ''leaving Printing \<newline>''
   \<and> map_option (written ex_io)
     (Callback ex_decls (PrinterStatusUpdate ex_decls)
        (Some (ex_status\<lparr>ps_change := NoChange, ps_currentLayer := 3, ps_numLayers := 10,
           ps_estimatedSecondsRemaining := 42\<rparr>)) ex_io)
     = Some ''Printing 3/10, 42s remaining\<newline>''"
  using Callback_progress_fragment
      [of "ex_status\<lparr>ps_change := Leaving, ps_currentLayer := 0\<rparr>" ex_io ex_decls]
    Callback_progress_fragment
      [of "ex_status\<lparr>ps_change := NoChange, ps_currentLayer := 3, ps_numLayers := 10,
           ps_estimatedSecondsRemaining := 42\<rparr>" ex_io ex_decls]
  by (simp add: ex_defs)

text \<open>
  Claim C3: when the callback returns on a printer status (the current layer is 0 or the
  progress fragment fits the buffer, so it does return), the text it appended to standard
  output starts with \<open>entering \<close> immediately before the state name if the transition
  marker is \<open>Entering\<close>, with \<open>leaving \<close> immediately before the state name if it is
  \<open>Leaving\<close>, and with the state name itself, no word before it, if it is \<open>NoChange\<close>.
\<close>

theorem Callback_transition_word:
  assumes "ps_currentLayer pPS = 0
    \<or> sprintf 256 (PRINTER_STATUS_FORMAT H)
         [sint (ps_currentLayer pPS), sint (ps_numLayers pPS),
          sint (ps_estimatedSecondsRemaining pPS)] \<noteq> None"
  shows "\<exists>w' rest. Callback H (PrinterStatusUpdate H) (Some pPS) w = Some w'
    \<and> (ps_change pPS = Entering \<longrightarrow>
         cout w' = cout w @ ''entering '' @ STATE_NAME H (ps_state pPS) @ rest)
    \<and> (ps_change pPS = Leaving \<longrightarrow>
         cout w' = cout w @ ''leaving '' @ STATE_NAME H (ps_state pPS) @ rest)
    \<and> (ps_change pPS = NoChange \<longrightarrow>
         cout w' = cout w @ STATE_NAME H (ps_state pPS) @ rest)"
proof -
  from assms obtain progress where p:
    "(if ps_currentLayer pPS \<noteq> 0
      then sprintf 256 (PRINTER_STATUS_FORMAT H)
             [sint (ps_currentLayer pPS), sint (ps_numLayers pPS),
              sint (ps_estimatedSecondsRemaining pPS)]
      else Some '''') = Some progress"
    by (cases "ps_currentLayer pPS = 0") auto
  show ?thesis
    unfolding Callback_status_cout p
    by (cases "ps_change pPS") simp_all
qed

theorem Callback_transition_word_witness:
  "\<exists>w' rest. Callback ex_decls (PrinterStatusUpdate ex_decls) (Some ex_status) ex_io = Some w'
     \<and> cout w' = cout ex_io @ ''entering '' @ ''Printing'' @ rest"
  using Callback_transition_word [of ex_status ex_decls ex_io]
  by (simp add: ex_defs sprintf_def dec_def digits.simps digit_def)

text \<open>
  Claim C4: with state name \<open>Printing\<close> and the format of the specification, a printer
  status with state \<open>Printing\<close>, no sub-state, \<open>Entering\<close>, layer 1 of 5 and 120
  seconds remaining is rendered as exactly one line: \<open>entering Printing\<close>, followed,
  after the space the code writes behind the state name, by the progress text
  \<open>1/5, 120s remaining\<close>, and a line break. Nothing else changes.
\<close>

theorem Callback_scenario:
  assumes "STATE_NAME H (ps_state pPS) = ''Printing''"
    and "PRINTER_STATUS_FORMAT H = spec_PRINTER_STATUS_FORMAT"
    and "ps_UISubState pPS = NoUISubState"
    and "ps_change pPS = Entering"
    and "ps_currentLayer pPS = 1"
    and "ps_numLayers pPS = 5"
    and "ps_estimatedSecondsRemaining pPS = 120"
  shows "Callback H (PrinterStatusUpdate H) (Some pPS) w =
    Some (w\<lparr>cout := cout w @ ''entering Printing 1/5, 120s remaining\<newline>''\<rparr>)"
  using assms
  by (simp add: Callback_status_cout spec_PRINTER_STATUS_FORMAT_def sprintf_def dec_def
      digits.simps digit_def)

theorem Callback_scenario_witness:
  "Callback ex_decls (PrinterStatusUpdate ex_decls) (Some ex_status) ex_io =
     Some (ex_io\<lparr>cout := ''ready\<newline>entering Printing 1/5, 120s remaining\<newline>''\<rparr>)"
  using Callback_scenario [of ex_decls ex_status ex_io]
  by (simp add: ex_defs)

text \<open>
  Claim C5: for every event type other than \<open>PrinterStatusUpdate\<close>, whatever \<open>data\<close>
  points to, the callback returns normally, and its whole effect is one call of the
  logger with priority \<open>LOG_WARNING\<close>, the current \<open>errno\<close>, the message of
  \<open>UnexpectedEvent\<close> and the numeric event type.
\<close>

theorem Callback_logs_unexpected_event:
  assumes "eventType \<noteq> PrinterStatusUpdate H"
  shows "Callback H eventType data w =
    Some (w\<lparr>logger := logger w @
      [\<lparr>log_priority = LOG_WARNING, log_errnum = errno w,
        log_msg = ERR_MSG H UnexpectedEvent, log_value = int eventType\<rparr>]\<rparr>)"
  using assms by (simp add: Callback_def LogError_def)

theorem Callback_logs_unexpected_event_witness:
  "Callback ex_decls 3 (None :: PrinterStatus option) ex_io =
     Some (ex_io\<lparr>logger :=
       [\<lparr>log_priority = LOG_WARNING, log_errnum = 2,
         log_msg = ''Unexpected event type: %d'', log_value = 3\<rparr>]\<rparr>)"
  using Callback_logs_unexpected_event [of 3 ex_decls "None :: PrinterStatus option" ex_io]
  by (simp add: ex_defs)

text \<open>
  Claim C9: for every event type other than \<open>PrinterStatusUpdate\<close> the callback writes
  nothing to standard output, makes exactly one logger call, and leaves all state other
  than the log as it was.
\<close>

theorem Callback_default_branch_frame:
  assumes "eventType \<noteq> PrinterStatusUpdate H"
  shows "\<exists>w' call. Callback H eventType data w = Some w'
    \<and> written w w' = '''' \<and> cout w' = cout w
    \<and> logger w' = logger w @ [call]
    \<and> w'\<lparr>logger := logger w\<rparr> = w"
  using assms by (simp add: Callback_def LogError_def written_def)

theorem Callback_default_branch_frame_witness:
  "\<exists>w' call. Callback ex_decls 0 (Some ex_status) ex_io = Some w'
    \<and> written ex_io w' = '''' \<and> cout w' = ''ready\<newline>''
    \<and> logger w' = [call]
    \<and> w'\<lparr>logger := []\<rparr> = ex_io"
  using Callback_default_branch_frame [of 0 ex_decls "Some ex_status" ex_io]
  by (simp add: ex_defs)

text \<open>
  Claim C10: two invocations with the same event type, on printer statuses that agree on
  state, sub-state, transition marker, current layer, number of layers and estimated
  seconds remaining, write the same text to standard output (or are both undefined),
  whatever the earlier output, the log, \<open>errno\<close> and the other fields of the two
  statuses are.
\<close>

theorem Callback_deterministic:
  fixes p1 :: "'p PrinterStatus_scheme" and p2 :: "'q PrinterStatus_scheme"
    and w1 :: "'a io_scheme" and w2 :: "'b io_scheme"
  assumes "ps_state p1 = ps_state p2"
    and "ps_UISubState p1 = ps_UISubState p2"
    and "ps_change p1 = ps_change p2"
    and "ps_currentLayer p1 = ps_currentLayer p2"
    and "ps_numLayers p1 = ps_numLayers p2"
    and "ps_estimatedSecondsRemaining p1 = ps_estimatedSecondsRemaining p2"
  shows "map_option (written w1) (Callback H eventType (Some p1) w1) =
    map_option (written w2) (Callback H eventType (Some p2) w2)"
proof (cases "eventType = PrinterStatusUpdate H")
  case True
  then show ?thesis
    using assms
    by (simp add: Callback_status_cout written_def option.map_comp comp_def)
next
  case False
  then show ?thesis
    by (simp add: Callback_def LogError_def written_def)
qed

theorem Callback_deterministic_witness:
  "map_option (written ex_io) (Callback ex_decls 7 (Some ex_status) ex_io) =
   map_option (written (ex_io\<lparr>cout := ''door open\<newline>'', errno := 0\<rparr>))
     (Callback ex_decls 7 (Some (PrinterStatus.extend ex_status True))
        (ex_io\<lparr>cout := ''door open\<newline>'', errno := 0\<rparr>))"
  using Callback_deterministic [of ex_status "PrinterStatus.extend ex_status True"
      ex_io ex_decls 7 "ex_io\<lparr>cout := ''door open\<newline>'', errno := 0\<rparr>"]
  by (simp add: PrinterStatus.defs ex_defs)

section \<open>Properties of the event handler\<close>

subsection \<open>Hardware and Event\<close>

lemmas hw_defs = export_pin_def open_descriptor_def close_descriptor_def unexport_pin_def
  Acquire_def Release_def

lemma Release_fault [simp]: "hw_fault (Release et hw) = hw_fault hw"
  by (simp add: hw_defs)

lemma Release_exported [simp]: "hw_exported (Release et hw) = hw_exported hw - {et}"
  by (auto simp: hw_defs)

lemma Release_opened [simp]: "hw_opened (Release et hw) = hw_opened hw - {et}"
  by (auto simp: hw_defs)

lemma Release_idem: "Release et (Release et hw) = Release et hw"
  by (simp add: hw_defs)

lemma Release_not_held:
  "et \<notin> hw_exported hw \<Longrightarrow> et \<notin> hw_opened hw \<Longrightarrow> Release et hw = hw"
  by (simp add: hw_defs)

lemma Release_balanced: "balanced hw et \<Longrightarrow> balanced (Release et' hw) et"
  by (auto simp: balanced_def hw_defs)

lemma Acquire_balanced: "balanced hw et \<Longrightarrow> balanced (snd (Acquire et' hw)) et"
  by (auto simp: balanced_def hw_defs Let_def)

lemma Acquire_fault [simp]: "hw_fault (snd (Acquire et hw)) = hw_fault hw"
  by (simp add: hw_defs Let_def)

lemma Acquire_fails_iff: "isl (fst (Acquire et hw)) \<longleftrightarrow> hw_fault hw et \<noteq> None"
proof (cases "hw_fault hw et")
  case None
  then show ?thesis by (simp add: Acquire_def Let_def)
next
  case (Some s)
  then show ?thesis by (cases s) (simp_all add: Acquire_def Let_def)
qed

lemma Arm_fails_iff: "isl (fst (Arm ev hw)) \<longleftrightarrow> hw_fault hw (ev_type ev) \<noteq> None"
  using Acquire_fails_iff [of "ev_type ev" hw]
  by (cases "Acquire (ev_type ev) hw") (auto simp: Arm_def split: sum.splits)

lemma Arm_failed:
  assumes "Arm ev hw = (Inl e, ev', hw')"
  shows "ev_handle ev' = None" and "ev_type ev' = ev_type ev"
    and "ev_type ev \<notin> hw_exported hw'" and "ev_type ev \<notin> hw_opened hw'"
    and "hw_exported hw' = hw_exported hw - {ev_type ev}"
    and "hw_opened hw' = hw_opened hw - {ev_type ev}"
    and "hw_fault hw' = hw_fault hw"
  using assms
  by (auto simp: Arm_def Acquire_def export_pin_def open_descriptor_def Let_def
      split: if_splits)

lemma Arm_succeeded:
  assumes "Arm ev hw = (Inr u, ev', hw')"
  shows "ev_handle ev' = Some (HandleFor (ev_type ev))" and "ev_type ev' = ev_type ev"
    and "hw_exported hw' = insert (ev_type ev) (hw_exported hw)"
    and "hw_opened hw' = insert (ev_type ev) (hw_opened hw)"
    and "hw_fault hw' = hw_fault hw"
  using assms
  by (auto simp: Arm_def Acquire_def export_pin_def open_descriptor_def Let_def
      split: if_splits)

lemma Arm_balanced: "balanced hw et \<Longrightarrow> balanced (snd (snd (Arm ev hw))) et"
  using Acquire_balanced [of hw et "ev_type ev"]
  by (cases "Acquire (ev_type ev) hw") (auto simp: Arm_def Release_balanced split: sum.splits)

lemma Disarm_balanced: "balanced hw et \<Longrightarrow> balanced (snd (Disarm ev hw)) et"
  by (simp add: Disarm_def Release_balanced split: option.splits)

lemma Disarm_result:
  "Disarm ev hw = (ev', hw') \<Longrightarrow>
     ev_handle ev' = None \<and> ev_type ev' = ev_type ev \<and> hw_fault hw' = hw_fault hw"
  by (auto simp: Disarm_def split: option.splits)

lemma Disarm_armed:
  "ev_handle ev = Some fd \<Longrightarrow> Disarm ev hw = (ev', hw') \<Longrightarrow>
     hw_exported hw' = hw_exported hw - {ev_type ev}
     \<and> hw_opened hw' = hw_opened hw - {ev_type ev}"
  by (auto simp: Disarm_def)

text \<open>
  Claim C8: for every \<open>Event\<close>, \<open>Disarm\<close> after a never-attempted \<open>Arm\<close> (the handle is
  the unconfigured sentinel) changes neither the event nor the hardware, so it releases
  nothing; after a failed \<open>Arm\<close> nothing of the event's resource is left exported or
  open, and \<open>Disarm\<close> changes neither the event nor the hardware; \<open>Release\<close> and
  \<open>Disarm\<close> are idempotent, so a repeated release performs no further operation; and
  \<open>Arm\<close>, \<open>Disarm\<close> and \<open>Release\<close> keep the trace balanced: no pin is unexported
  and no descriptor closed more often than it was exported or opened.
\<close>

theorem Disarm_safe:
  "(ev_handle ev = None \<longrightarrow> Disarm ev hw = (ev, hw))
   \<and> (isl (fst (Arm ev hw)) \<longrightarrow>
        Disarm (fst (snd (Arm ev hw))) (snd (snd (Arm ev hw))) = snd (Arm ev hw)
        \<and> ev_type ev \<notin> hw_exported (snd (snd (Arm ev hw)))
        \<and> ev_type ev \<notin> hw_opened (snd (snd (Arm ev hw))))
   \<and> Release et (Release et hw) = Release et hw
   \<and> Disarm (fst (Disarm ev hw)) (snd (Disarm ev hw)) = Disarm ev hw
   \<and> (balanced hw et \<longrightarrow>
        balanced (Release (ev_type ev) hw) et
        \<and> balanced (snd (Disarm ev hw)) et
        \<and> balanced (snd (snd (Arm ev hw))) et)"
proof (intro conjI impI)
  show "Disarm ev hw = (ev, hw)" if "ev_handle ev = None"
    using that by (simp add: Disarm_def)
next
  assume f: "isl (fst (Arm ev hw))"
  obtain r ev' hw' where a: "Arm ev hw = (r, ev', hw')"
    by (cases "Arm ev hw") auto
  with f obtain e where "Arm ev hw = (Inl e, ev', hw')"
    by (cases r) auto
  note * = Arm_failed [OF this]
  from * show "Disarm (fst (snd (Arm ev hw))) (snd (snd (Arm ev hw))) = snd (Arm ev hw)"
    by (simp add: a Disarm_def)
  from * show "ev_type ev \<notin> hw_exported (snd (snd (Arm ev hw)))"
    and "ev_type ev \<notin> hw_opened (snd (snd (Arm ev hw)))"
    by (simp_all add: a)
next
  show "Release et (Release et hw) = Release et hw"
    by (rule Release_idem)
next
  show "Disarm (fst (Disarm ev hw)) (snd (Disarm ev hw)) = Disarm ev hw"
    by (simp add: Disarm_def split: option.splits)
next
  assume "balanced hw et"
  then show "balanced (Release (ev_type ev) hw) et"
    and "balanced (snd (Disarm ev hw)) et"
    and "balanced (snd (snd (Arm ev hw))) et"
    by (simp_all add: Release_balanced Disarm_balanced Arm_balanced)
qed

theorem Disarm_safe_witness:
  "Disarm \<lparr>ev_type = 2, ev_required = True, ev_handle = None\<rparr> ex_hw =
     (\<lparr>ev_type = 2, ev_required = True, ev_handle = None\<rparr>, ex_hw)
   \<and> isl (fst (Arm \<lparr>ev_type = 2, ev_required = True, ev_handle = None\<rparr> ex_hw))
   \<and> hw_ops (snd (snd (Arm \<lparr>ev_type = 2, ev_required = True, ev_handle = None\<rparr> ex_hw))) =
       [DoExport 2, DoUnexport 2]
   \<and> Disarm (fst (snd (Arm \<lparr>ev_type = 2, ev_required = True, ev_handle = None\<rparr> ex_hw)))
       (snd (snd (Arm \<lparr>ev_type = 2, ev_required = True, ev_handle = None\<rparr> ex_hw))) =
     snd (Arm \<lparr>ev_type = 2, ev_required = True, ev_handle = None\<rparr> ex_hw)
   \<and> balanced ex_hw 2
   \<and> balanced (snd (snd (Arm \<lparr>ev_type = 2, ev_required = True, ev_handle = None\<rparr> ex_hw))) 2"
  using Disarm_safe [of "\<lparr>ev_type = 2, ev_required = True, ev_handle = None\<rparr>" ex_hw 2]
  by (simp add: ex_hw_def balanced_def Arm_def hw_defs)

subsection \<open>Configuration\<close>

text \<open>
  Configuration establishes and keeps \<open>unarmed\<close>: a new handler is unarmed, and it
  stays so under \<open>Subscribe\<close>, and under \<open>SetResource\<close> for an event type whose pin and
  descriptor the hardware does not hold.
\<close>

lemma unarmed_new_EventHandler: "unarmed (new_EventHandler hw)"
  by (simp add: unarmed_def new_EventHandler_def)

lemma SetResource_types:
  "ev_type \<circ> (\<lambda>ev. if ev_type ev = et then ev\<lparr>ev_required := r\<rparr> else ev) = ev_type"
  by (auto simp: fun_eq_iff)

lemma unarmed_SetResource:
  assumes "unarmed h"
    and "et \<notin> hw_exported (hardware h)" and "et \<notin> hw_opened (hardware h)"
  shows "unarmed (SetResource et required h)"
proof (cases "et \<in> set (map ev_type (events h))")
  case True
  have "distinct (map ev_type (events (SetResource et required h)))"
    using assms(1) True by (simp add: SetResource_def unarmed_def SetResource_types)
  moreover have "list_all (\<lambda>ev. ev_handle ev = None
      \<and> ev_type ev \<notin> hw_exported (hardware h) \<and> ev_type ev \<notin> hw_opened (hardware h))
    (events (SetResource et required h))"
    using assms(1) True by (auto simp: SetResource_def unarmed_def list_all_iff)
  ultimately show ?thesis
    by (simp add: unarmed_def SetResource_def)
next
  case False
  then show ?thesis
    using assms by (auto simp: SetResource_def unarmed_def)
qed

lemma unarmed_Subscribe: "unarmed h \<Longrightarrow> unarmed (Subscribe et c h)"
  by (simp add: unarmed_def Subscribe_def)

subsection \<open>Startup\<close>

lemma ArmAll_fault: "ArmAll evs hw = (ok, evs', hw', ws) \<Longrightarrow> hw_fault hw' = hw_fault hw"
proof (induction evs arbitrary: hw ok evs' hw' ws)
  case Nil
  then show ?case by simp
next
  case (Cons ev evs)
  obtain r ev1 hw1 where a: "Arm ev hw = (r, ev1, hw1)"
    by (cases "Arm ev hw") auto
  obtain ok2 evs2 hw2 ws2 where b: "ArmAll evs hw1 = (ok2, evs2, hw2, ws2)"
    by (cases "ArmAll evs hw1") auto
  obtain ev3 hw3 where c: "Disarm ev1 hw2 = (ev3, hw3)"
    by (cases "Disarm ev1 hw2") auto
  have f1: "hw_fault hw1 = hw_fault hw"
    using a Arm_failed(7) [of ev hw _ ev1 hw1] Arm_succeeded(5) [of ev hw _ ev1 hw1]
    by (cases r) auto
  have f2: "hw_fault hw2 = hw_fault hw1"
    using Cons.IH [OF b] .
  have f3: "hw_fault hw3 = hw_fault hw2"
    using Disarm_result [OF c] by simp
  from Cons.prems show ?case
    by (cases r; cases ok2) (use f1 f2 f3 in \<open>auto simp: a b c split: if_splits\<close>)
qed

text \<open>The arming pass fails exactly when a required event is on faulty hardware.\<close>

lemma ArmAll_fails_iff:
  "\<not> fst (ArmAll evs hw) \<longleftrightarrow>
     (\<exists>ev \<in> set evs. ev_required ev \<and> hw_fault hw (ev_type ev) \<noteq> None)"
proof (induction evs arbitrary: hw)
  case Nil
  then show ?case by simp
next
  case (Cons ev evs)
  obtain r ev1 hw1 where a: "Arm ev hw = (r, ev1, hw1)"
    by (cases "Arm ev hw") auto
  obtain ok2 evs2 hw2 ws2 where b: "ArmAll evs hw1 = (ok2, evs2, hw2, ws2)"
    by (cases "ArmAll evs hw1") auto
  obtain ev3 hw3 where c: "Disarm ev1 hw2 = (ev3, hw3)"
    by (cases "Disarm ev1 hw2") auto
  have f1: "hw_fault hw1 = hw_fault hw"
    using a Arm_failed(7) [of ev hw _ ev1 hw1] Arm_succeeded(5) [of ev hw _ ev1 hw1]
    by (cases r) auto
  have r: "isl r \<longleftrightarrow> hw_fault hw (ev_type ev) \<noteq> None"
    using Arm_fails_iff [of ev hw] by (simp add: a)
  have ih: "\<not> ok2 \<longleftrightarrow> (\<exists>e \<in> set evs. ev_required e \<and> hw_fault hw (ev_type e) \<noteq> None)"
    using Cons.IH [of hw1] by (simp add: b f1)
  show ?case
    using r ih by (cases r; cases ok2) (auto simp: a b c)
qed

text \<open>
  A failed arming pass over unarmed events leaves every event unarmed and the hardware
  holding what it held before.
\<close>

lemma ArmAll_failed:
  assumes "distinct (map ev_type evs)"
    and "\<forall>ev \<in> set evs. ev_handle ev = None
           \<and> ev_type ev \<notin> hw_exported hw \<and> ev_type ev \<notin> hw_opened hw"
    and "ArmAll evs hw = (False, evs', hw', ws)"
  shows "(\<forall>ev \<in> set evs'. ev_handle ev = None)
    \<and> map ev_type evs' = map ev_type evs
    \<and> hw_exported hw' = hw_exported hw \<and> hw_opened hw' = hw_opened hw"
  using assms
proof (induction evs arbitrary: hw evs' hw' ws)
  case Nil
  then show ?case by simp
next
  case (Cons ev evs)
  obtain r ev1 hw1 where a: "Arm ev hw = (r, ev1, hw1)"
    by (cases "Arm ev hw") auto
  obtain ok2 evs2 hw2 ws2 where b: "ArmAll evs hw1 = (ok2, evs2, hw2, ws2)"
    by (cases "ArmAll evs hw1") auto
  obtain ev3 hw3 where c: "Disarm ev1 hw2 = (ev3, hw3)"
    by (cases "Disarm ev1 hw2") auto
  from Cons.prems(2) have fresh: "ev_type ev \<notin> hw_exported hw" "ev_type ev \<notin> hw_opened hw"
    and unarmed_rest: "\<forall>e \<in> set evs. ev_handle e = None"
    and clean_rest: "\<forall>e \<in> set evs. ev_type e \<notin> hw_exported hw \<and> ev_type e \<notin> hw_opened hw"
    by simp_all
  from Cons.prems(1) have dist: "distinct (map ev_type evs)"
    and "ev_type ev \<notin> ev_type ` set evs"
    by simp_all
  then have others: "\<forall>e \<in> set evs. ev_type e \<noteq> ev_type ev"
    by (fastforce simp: image_iff)
  show ?case
  proof (cases r)
    case (Inl e)
    note f = Arm_failed [OF a [unfolded Inl]]
    have same: "hw_exported hw1 = hw_exported hw" "hw_opened hw1 = hw_opened hw"
      using f(5,6) fresh by auto
    show ?thesis
    proof (cases "ev_required ev")
      case True
      with Cons.prems(3) have "evs' = ev1 # evs" "hw' = hw1"
        by (simp_all add: a Inl)
      then show ?thesis
        using f(1,2) same unarmed_rest by simp
    next
      case False
      with Cons.prems(3) have ok2: "\<not> ok2" and res: "evs' = ev1 # evs2" "hw' = hw2"
        by (auto simp: a b Inl)
      have "(\<forall>e \<in> set evs2. ev_handle e = None)
        \<and> map ev_type evs2 = map ev_type evs
        \<and> hw_exported hw2 = hw_exported hw1 \<and> hw_opened hw2 = hw_opened hw1"
        using Cons.IH [of hw1 evs2 hw2 ws2] dist unarmed_rest clean_rest b ok2
        by (simp add: same)
      then show ?thesis
        using f(1,2) same res by simp
    qed
  next
    case (Inr u)
    note s = Arm_succeeded [OF a [unfolded Inr]]
    from Cons.prems(3) have ok2: "\<not> ok2" and res: "evs' = ev3 # evs2" "hw' = hw3"
      by (cases ok2; auto simp: a b c Inr)+
    have clean1: "\<forall>e \<in> set evs. ev_type e \<notin> hw_exported hw1 \<and> ev_type e \<notin> hw_opened hw1"
      using clean_rest others by (simp add: s(3,4))
    have ih: "(\<forall>e \<in> set evs2. ev_handle e = None)
        \<and> map ev_type evs2 = map ev_type evs
        \<and> hw_exported hw2 = hw_exported hw1 \<and> hw_opened hw2 = hw_opened hw1"
      using Cons.IH [of hw1 evs2 hw2 ws2] dist unarmed_rest clean1 b ok2
      by simp
    have d: "ev_handle ev3 = None" "ev_type ev3 = ev_type ev1"
      using Disarm_result [OF c] by simp_all
    have "hw_exported hw3 = hw_exported hw2 - {ev_type ev1}"
      and "hw_opened hw3 = hw_opened hw2 - {ev_type ev1}"
      using Disarm_armed [OF s(1) c] by simp_all
    then have "hw_exported hw3 = hw_exported hw" "hw_opened hw3 = hw_opened hw"
      using ih s(2,3,4) fresh by auto
    then show ?thesis
      using ih d s(2) res by simp
  qed
qed

lemma ArmAll_balanced:
  "balanced hw et \<Longrightarrow> ArmAll evs hw = (ok, evs', hw', ws) \<Longrightarrow> balanced hw' et"
proof (induction evs arbitrary: hw ok evs' hw' ws)
  case Nil
  then show ?case by simp
next
  case (Cons ev evs)
  obtain r ev1 hw1 where a: "Arm ev hw = (r, ev1, hw1)"
    by (cases "Arm ev hw") auto
  obtain ok2 evs2 hw2 ws2 where b: "ArmAll evs hw1 = (ok2, evs2, hw2, ws2)"
    by (cases "ArmAll evs hw1") auto
  obtain ev3 hw3 where c: "Disarm ev1 hw2 = (ev3, hw3)"
    by (cases "Disarm ev1 hw2") auto
  have b1: "balanced hw1 et"
    using Arm_balanced [OF Cons.prems(1), of ev] by (simp add: a)
  have b2: "balanced hw2 et"
    using Cons.IH [OF b1 b] .
  have b3: "balanced hw3 et"
    using Disarm_balanced [OF b2, of ev1] by (simp add: c)
  from Cons.prems(2) show ?case
    by (cases r; cases ok2) (use b1 b2 b3 in \<open>auto simp: a b c split: if_splits\<close>)
qed

text \<open>
  Claim C7: when a required \<open>Event\<close> of the handler cannot be armed (the setup of its
  event type breaks on this hardware), \<open>Begin\<close> on the handler as configuration leaves
  it fails with \<open>StartupFailed\<close>, whatever wakeups would follow: the phase is the one
  before the call, no subscriber is called and no event interpreted (no loop runs), no
  \<open>Event\<close> is left armed, the hardware holds the pins and descriptors it held before
  the call, and the trace of acquisitions and releases stays balanced.
\<close>

theorem Begin_startup_failed:
  assumes "unarmed h"
    and "ev \<in> set (events h)" and "ev_required ev"
    and "hw_fault (hardware h) (ev_type ev) \<noteq> None"
  shows "\<exists>h'. Begin ws h = (Inl StartupFailed, h')
    \<and> phase h' = phase h
    \<and> delivered h' = delivered h \<and> interpreted h' = interpreted h
    \<and> list_all (\<lambda>e. ev_handle e = None) (events h')
    \<and> hw_exported (hardware h') = hw_exported (hardware h)
    \<and> hw_opened (hardware h') = hw_opened (hardware h)
    \<and> (balanced (hardware h) et \<longrightarrow> balanced (hardware h') et)"
proof -
  obtain ok evs' hw' logged where a: "ArmAll (events h) (hardware h) = (ok, evs', hw', logged)"
    by (cases "ArmAll (events h) (hardware h)") auto
  have "\<not> fst (ArmAll (events h) (hardware h))"
    using assms(2-4) by (auto simp: ArmAll_fails_iff)
  with a have ok: "\<not> ok" by simp
  from assms(1) have pre: "distinct (map ev_type (events h))"
    "\<forall>e \<in> set (events h). ev_handle e = None
       \<and> ev_type e \<notin> hw_exported (hardware h) \<and> ev_type e \<notin> hw_opened (hardware h)"
    by (simp_all add: unarmed_def list_all_iff)
  from ArmAll_failed [OF pre a [unfolded ok [THEN eq_False [THEN iffD2]]]]
  have post: "\<forall>e \<in> set evs'. ev_handle e = None"
    "hw_exported hw' = hw_exported (hardware h)" "hw_opened hw' = hw_opened (hardware h)"
    by simp_all
  have bal: "balanced (hardware h) et \<longrightarrow> balanced hw' et"
    using ArmAll_balanced [OF _ a] by simp
  show ?thesis
    using ok post bal by (simp add: Begin_def a list_all_iff)
qed

theorem Begin_startup_failed_witness:
  "unarmed ex_failing_handler
   \<and> (\<exists>h'. Begin [Readiness ex_ready] ex_failing_handler = (Inl StartupFailed, h')
     \<and> phase h' = Configured \<and> delivered h' = [] \<and> interpreted h' = []
     \<and> list_all (\<lambda>e. ev_handle e = None) (events h')
     \<and> hw_exported (hardware h') = {} \<and> hw_opened (hardware h') = {}
     \<and> balanced (hardware h') 1)"
proof -
  have u: "unarmed ex_failing_handler"
    by (simp add: unarmed_def ex_failing_handler_def ex_handler_def ex_hw_def Subscribe_def
        SetResource_def new_EventHandler_def)
  have e: "\<lparr>ev_type = 2, ev_required = True, ev_handle = None\<rparr> \<in> set (events ex_failing_handler)"
    by (simp add: ex_failing_handler_def ex_handler_def Subscribe_def SetResource_def
        new_EventHandler_def)
  have f: "hw_fault (hardware ex_failing_handler)
      (ev_type \<lparr>ev_type = 2, ev_required = True, ev_handle = None\<rparr>) \<noteq> None"
    by (simp add: ex_failing_handler_def ex_handler_def ex_hw_def Subscribe_def SetResource_def
        new_EventHandler_def)
  have b: "balanced (hardware ex_failing_handler) 1"
    by (simp add: balanced_def ex_failing_handler_def ex_handler_def ex_hw_def Subscribe_def
        SetResource_def new_EventHandler_def)
  have p: "phase ex_failing_handler = Configured" "delivered ex_failing_handler = []"
    "interpreted ex_failing_handler = []" "hw_exported (hardware ex_failing_handler) = {}"
    "hw_opened (hardware ex_failing_handler) = {}"
    by (simp_all add: ex_failing_handler_def ex_handler_def ex_hw_def Subscribe_def
        SetResource_def new_EventHandler_def)
  from Begin_startup_failed [OF u e _ f, of "[Readiness ex_ready]" 1] u b p
  show ?thesis by simp
qed

subsection \<open>Dispatch\<close>

lemma foldl_Invoke:
  "foldl (Invoke et p) h cs = h\<lparr>delivered := delivered h @ map (\<lambda>c. (c, et, p)) cs\<rparr>"
  by (induction cs arbitrary: h) (simp_all add: Invoke_def)

lemma Dispatch_delivered:
  "Dispatch et p h =
     h\<lparr>delivered := delivered h @ map (\<lambda>c. (c, et, p)) (SubscribersFor et h)\<rparr>"
  by (simp add: Dispatch_def foldl_Invoke)


lemma ServiceEvent_subscriptions [simp]:
  "subscriptions (ServiceEvent ready h ev) = subscriptions h"
  by (simp add: ServiceEvent_def Dispatch_delivered Let_def split: option.splits sum.splits)



lemma foldl_ServiceEvent_subscriptions [simp]:
  "subscriptions (foldl (ServiceEvent ready) h evs) = subscriptions h"
  by (induction evs arbitrary: h) simp_all











end
